theory Spec2Isabelle
  imports Complex_Main
begin

section \<open>Strings as Python sees them\<close>

text \<open>
  Python strings are modelled as \<^typ>\<open>string\<close> (lists of 8-bit characters), so the model
  covers ASCII text, which is what the process listing and the per-process text sources
  hold.  \<open>lower\<close> is \<^verbatim>\<open>str.lower\<close> on ASCII: the letters A..Z (codes 65..90) move up by 32.
\<close>

definition lower_char :: "char \<Rightarrow> char" where
  "lower_char c =
     (let n = (of_char c :: nat) in if 65 \<le> n \<and> n \<le> 90 then char_of (n + 32) else c)"

definition lower :: "string \<Rightarrow> string" where
  "lower s = map lower_char s"

text \<open>\<^verbatim>\<open>s.startswith(t)\<close> and the substring test \<^verbatim>\<open>t in s\<close>.\<close>

fun startswith :: "string \<Rightarrow> string \<Rightarrow> bool" where
  "startswith s [] = True"
| "startswith [] (c # t) = False"
| "startswith (d # s) (c # t) = (d = c \<and> startswith s t)"

fun str_in :: "string \<Rightarrow> string \<Rightarrow> bool" where
  "str_in t [] = (t = [])"
| "str_in t (c # s) = (startswith (c # s) t \<or> str_in t s)"

section \<open>Process directory reader: search\<close>

text \<open>
  \<^verbatim>\<open>
  def search_processes(processes, search_term):
      search_term = search_term.lower()
      return [proc for proc in processes
              if search_term in proc[0].lower() or search_term in proc[1].lower()]
  \<close>
  A process is the pair (pid, command), both strings.  The comprehension builds a new
  list and only reads \<open>processes\<close>.
\<close>

type_synonym process = "string \<times> string"

definition search_processes :: "process list \<Rightarrow> string \<Rightarrow> process list" where
  "search_processes processes search_term =
     (let search_term = lower search_term
      in filter (\<lambda>proc. str_in search_term (lower (fst proc)) \<or>
                        str_in search_term (lower (snd proc))) processes)"


section \<open>Whitespace, splitting and integer parsing\<close>

text \<open>
  ASCII whitespace as \<^verbatim>\<open>str.strip\<close> and \<^verbatim>\<open>str.split\<close> see it: tab, line feed, vertical
  tab, form feed, carriage return (9..13), the separators 28..31 and the space (32).
\<close>

definition is_space :: "char \<Rightarrow> bool" where
  "is_space c = (let n = (of_char c :: nat) in (9 \<le> n \<and> n \<le> 13) \<or> (28 \<le> n \<and> n \<le> 32))"

definition rstrip :: "string \<Rightarrow> string" where
  "rstrip s = rev (dropWhile is_space (rev s))"

definition strip :: "string \<Rightarrow> string" where
  "strip s = dropWhile is_space (rstrip s)"

text \<open>\<^verbatim>\<open>s.split()\<close>: the maximal runs of non-whitespace characters, in order.\<close>

fun split_acc :: "string \<Rightarrow> string \<Rightarrow> string list" where
  "split_acc cur [] = (if cur = [] then [] else [cur])"
| "split_acc cur (c # cs) =
     (if is_space c then (if cur = [] then split_acc [] cs else cur # split_acc [] cs)
      else split_acc (cur @ [c]) cs)"

definition split_ws :: "string \<Rightarrow> string list" where
  "split_ws s = split_acc [] s"

text \<open>
  \<^verbatim>\<open>s.splitlines()\<close>: lines end at line feed, carriage return (with a following line
  feed), vertical tab, form feed and the separators 28..30; the ends are dropped, empty
  lines are kept, and a final line without an end is a line.
\<close>

definition is_linebreak :: "char \<Rightarrow> bool" where
  "is_linebreak c = (let n = (of_char c :: nat) in n = 10 \<or> n = 11 \<or> n = 12 \<or> (28 \<le> n \<and> n \<le> 30))"

fun splitlines_acc :: "string \<Rightarrow> string \<Rightarrow> string list" where
  "splitlines_acc cur [] = (if cur = [] then [] else [cur])"
| "splitlines_acc cur (c # cs) =
     (if c = char_of (13 :: nat) then
        (case cs of
           [] \<Rightarrow> [cur]
         | d # ds \<Rightarrow> if d = char_of (10 :: nat) then cur # splitlines_acc [] ds
                    else cur # splitlines_acc [] cs)
      else if is_linebreak c then cur # splitlines_acc [] cs
      else splitlines_acc (cur @ [c]) cs)"

definition splitlines :: "string \<Rightarrow> string list" where
  "splitlines s = splitlines_acc [] s"

text \<open>
  \<^verbatim>\<open>int(s)\<close> on a token without whitespace: an optional sign, then decimal digits,
  where single underscores may stand between digits.  A literal of more than 4300 digits
  is refused (the default limit of CPython 3.11 and later; leading zeros count).
  \<open>None\<close> is the \<^verbatim>\<open>ValueError\<close>.
\<close>

definition digit_val :: "char \<Rightarrow> int option" where
  "digit_val c =
     (let n = (of_char c :: nat) in if 48 \<le> n \<and> n \<le> 57 then Some (int n - 48) else None)"

fun int_digits :: "int \<Rightarrow> string \<Rightarrow> int option" where
  "int_digits acc [] = Some acc"
| "int_digits acc [c] = (case digit_val c of None \<Rightarrow> None | Some v \<Rightarrow> Some (acc * 10 + v))"
| "int_digits acc (c # d # ds) =
     (if c = CHR ''_'' then
        (case digit_val d of None \<Rightarrow> None | Some v \<Rightarrow> int_digits (acc * 10 + v) ds)
      else (case digit_val c of None \<Rightarrow> None | Some v \<Rightarrow> int_digits (acc * 10 + v) (d # ds)))"

definition int_unsigned :: "string \<Rightarrow> int option" where
  "int_unsigned s =
     (if int (length (filter (\<lambda>c. c \<noteq> CHR ''_'') s)) > 4300 then None
      else
        (case s of [] \<Rightarrow> None
         | c # cs \<Rightarrow> (case digit_val c of None \<Rightarrow> None | Some v \<Rightarrow> int_digits v cs)))"

definition py_int :: "string \<Rightarrow> int option" where
  "py_int s =
     (case s of [] \<Rightarrow> None
      | c # cs \<Rightarrow>
          if c = CHR ''-'' then map_option uminus (int_unsigned cs)
          else if c = CHR ''+'' then int_unsigned cs
          else int_unsigned s)"

text \<open>
  True division of an integer by 1024, \<^verbatim>\<open>n / 1024\<close>.  Python gives the double nearest
  to the quotient, ties to the even significand, and raises \<^verbatim>\<open>OverflowError\<close> when that
  is beyond the doubles.  A double has 53 significant bits, and dividing by 1024 only
  moves the exponent, so the magnitude of \<open>n\<close> is rounded to its 53 leading bits; the
  result is out of range from \<open>2 ^ 1024\<close> on, that is when the rounded magnitude reaches
  \<open>2 ^ 1034\<close>.  The double obtained is given as the rational it denotes.
\<close>

function bit_length :: "int \<Rightarrow> nat" where
  "bit_length n = (if n \<le> 0 then 0 else Suc (bit_length (n div 2)))"
  by pat_completeness auto
termination
  by (relation "measure nat") auto

declare bit_length.simps [simp del]

definition round_half_even_53 :: "int \<Rightarrow> int" where
  "round_half_even_53 n =
     (if bit_length n \<le> 53 then n
      else
        (let shift = bit_length n - 53;
             q = n div 2 ^ shift;
             r = n mod 2 ^ shift
         in if 2 * r > 2 ^ shift \<or> (2 * r = 2 ^ shift \<and> odd q)
            then (q + 1) * 2 ^ shift
            else q * 2 ^ shift))"

definition double_limit :: int where
  "double_limit = 2 ^ 1034"

section \<open>Exceptions, values and dictionaries\<close>

text \<open>
  An exception is its class and its message (\<^verbatim>\<open>str(e)\<close>).  All classes here derive from
  \<^verbatim>\<open>Exception\<close>, so \<^verbatim>\<open>except Exception\<close> and a bare \<^verbatim>\<open>except\<close> both catch them.
\<close>

datatype exn_class =
  PermissionError | FileNotFoundError | ValueError | IndexError | ZeroDivisionError |
  OverflowError | OtherException

datatype exn = Exn exn_class string

fun exn_class_of :: "exn \<Rightarrow> exn_class" where
  "exn_class_of (Exn c m) = c"

fun str_exn :: "exn \<Rightarrow> string" where
  "str_exn (Exn c m) = m"

text \<open>
  The values a snapshot holds.  A Python float is given as the rational it denotes.  The
  memory step rounds as Python does (\<open>int_truediv_1024\<close> below); the arithmetic of the
  CPU step, whose values no property here depends on, is done on the rationals that
  \<open>float_of\<close> delivers.
\<close>

datatype pyval =
  Str string
| IntV int
| Float rat
| Dict "(string \<times> pyval) list"
| Pairs "(string \<times> string) list"

text \<open>
  A \<^verbatim>\<open>dict\<close> keeps its keys in insertion order: storing under a key that is present
  replaces the value in place, storing under a new key appends.
\<close>

fun dict_set :: "string \<Rightarrow> 'v \<Rightarrow> (string \<times> 'v) list \<Rightarrow> (string \<times> 'v) list" where
  "dict_set k v [] = [(k, v)]"
| "dict_set k v ((k', v') # kvs) =
     (if k' = k then (k, v) # kvs else (k', v') # dict_set k v kvs)"

definition dict_get :: "(string \<times> 'v) list \<Rightarrow> string \<Rightarrow> 'v option" where
  "dict_get d k = map_of d k"

type_synonym info = "(string \<times> pyval) list"

section \<open>The per-process text sources\<close>

text \<open>
  What the operating system shows under \<^verbatim>\<open>/proc/<pid>\<close> when the code looks.  A source
  that \<^verbatim>\<open>os.path.exists\<close> does not find is \<open>None\<close>.  Reading a whole file with
  \<^verbatim>\<open>f.read()\<close> gives its text or raises.  Iterating a file line by line gives the lines
  read (each with its line end) and, when opening or reading fails, the exception that
  ends the iteration.  The descriptor directory lists its entries or raises; each entry
  carries what \<^verbatim>\<open>os.readlink\<close> does on it.
\<close>

record procfs =
  status :: "(exn + string) option"
  cmdline :: "(exn + string) option"
  statm :: "(exn + string) option"
  stat :: "(exn + string) option"
  fd :: "(exn + (string \<times> (exn + string)) list) option"
  io :: "(exn + string) option"
  maps :: "(string list \<times> exn option) option"
  limits :: "(string list \<times> exn option) option"
  cwd :: "exn + string"
  exe :: "exn + string"

text \<open>
  The host: the platform name, the existing \<^verbatim>\<open>/proc/<pid>\<close> directories by pid, the read
  of \<^verbatim>\<open>/proc/uptime\<close>, the two \<^verbatim>\<open>os.sysconf\<close> constants, and Python's \<^verbatim>\<open>float(s)\<close>
  (\<open>None\<close> is its \<^verbatim>\<open>ValueError\<close>), which the model takes from outside.
\<close>

record host =
  platform_system :: string
  proc_dirs :: "(string \<times> procfs) list"
  proc_uptime :: "exn + string"
  sc_page_size :: int
  sc_clk_tck :: int
  float_of :: "string \<Rightarrow> rat option"

section \<open>Section content resolver\<close>

text \<open>
  \<^verbatim>\<open>get_section_content(proc_path, section_id)\<close>; \<open>proc_path\<close> is given by the sources
  found under it.  For \<open>maps\<close> and \<open>limits\<close> every line read is appended right-stripped,
  and a failure appends one error line after the lines read so far.
\<close>

definition read_lines_section :: "string \<Rightarrow> (string list \<times> exn option) option \<Rightarrow> string list" where
  "read_lines_section name src =
     (case src of
        None \<Rightarrow> [name @ '' not available'']
      | Some (ls, err) \<Rightarrow>
          map rstrip ls @
          (case err of None \<Rightarrow> [] | Some e \<Rightarrow> [''Error reading '' @ name @ '': '' @ str_exn e]))"

definition fd_line :: "string \<times> (exn + string) \<Rightarrow> string" where
  "fd_line ent =
     (case snd ent of
        Inr target \<Rightarrow> ''fd '' @ fst ent @ '': '' @ target
      | Inl e \<Rightarrow> ''fd '' @ fst ent @ '': Error: '' @ str_exn e)"

definition readlink_line :: "exn + string \<Rightarrow> string" where
  "readlink_line r = (case r of Inr target \<Rightarrow> target | Inl e \<Rightarrow> ''Error: '' @ str_exn e)"

definition get_section_content :: "procfs \<Rightarrow> string \<Rightarrow> string list" where
  "get_section_content p section_id =
     (if section_id = ''maps'' then read_lines_section ''maps'' (maps p)
      else if section_id = ''fd'' then
        (case fd p of
           None \<Rightarrow> [''fd not available'']
         | Some (Inl e) \<Rightarrow> [''Error reading fd: '' @ str_exn e]
         | Some (Inr fds) \<Rightarrow> map fd_line fds)
      else if section_id = ''cwd'' then [readlink_line (cwd p)]
      else if section_id = ''exe'' then [readlink_line (exe p)]
      else if section_id = ''limits'' then read_lines_section ''limits'' (limits p)
      else [])"

text \<open>The directory of a pid that is not on the host: nothing exists under it.\<close>

definition absent_proc :: procfs where
  "absent_proc =
     \<lparr> status = None, cmdline = None, statm = None, stat = None, fd = None, io = None,
       maps = None, limits = None,
       cwd = Inl (Exn FileNotFoundError ''[Errno 2] No such file or directory''),
       exe = Inl (Exn FileNotFoundError ''[Errno 2] No such file or directory'') \<rparr>"

section \<open>Process fact collector\<close>

text \<open>
  \<^verbatim>\<open>get_proc_info(pid)\<close> fills \<open>info\<close> step by step inside one \<^verbatim>\<open>try\<close>.  A step takes the
  snapshot built so far and gives the snapshot it leaves, with the exception it raised
  if it raised one; \<open>then_step\<close> runs the next step only when none was raised.
\<close>

type_synonym step_result = "info \<times> exn option"

definition then_step :: "step_result \<Rightarrow> (info \<Rightarrow> step_result) \<Rightarrow> step_result" where
  "then_step r f = (case snd r of None \<Rightarrow> f (fst r) | Some e \<Rightarrow> r)"

text \<open>
  The colon-delimited blocks (\<open>status\<close>, \<open>io\<close>): every line holding a colon is cut at
  its first colon into a stripped key and a stripped value.
\<close>

definition colon_fields :: "string \<Rightarrow> (string \<times> string) list" where
  "colon_fields text =
     map (\<lambda>line. (strip (takeWhile (\<lambda>c. c \<noteq> CHR '':'') line),
                   strip (tl (dropWhile (\<lambda>c. c \<noteq> CHR '':'') line))))
         (filter (\<lambda>line. CHR '':'' \<in> set line) (splitlines text))"

definition store_fields :: "(string \<times> string) list \<Rightarrow> info \<Rightarrow> info" where
  "store_fields kvs d = fold (\<lambda>kv i. dict_set (fst kv) (Str (snd kv)) i) kvs d"

definition read_status :: "procfs \<Rightarrow> info \<Rightarrow> step_result" where
  "read_status p info =
     (case status p of
        None \<Rightarrow> (info, None)
      | Some (Inl e) \<Rightarrow> (info, Some e)
      | Some (Inr text) \<Rightarrow> (store_fields (colon_fields text) info, None))"

definition read_cmdline :: "procfs \<Rightarrow> info \<Rightarrow> step_result" where
  "read_cmdline p info =
     (case cmdline p of
        None \<Rightarrow> (info, None)
      | Some (Inl e) \<Rightarrow> (info, Some e)
      | Some (Inr text) \<Rightarrow>
          (dict_set ''cmdline''
             (Str (strip (map (\<lambda>c. if c = char_of (0 :: nat) then CHR '' '' else c) text))) info,
           None))"

text \<open>
  A dictionary display evaluates its values in order; the first one that raises ends
  the evaluation and nothing is stored.
\<close>

fun build_dict :: "(string \<times> (exn + pyval)) list \<Rightarrow> exn + (string \<times> pyval) list" where
  "build_dict [] = Inr []"
| "build_dict ((k, r) # rest) =
     (case r of
        Inl e \<Rightarrow> Inl e
      | Inr v \<Rightarrow> (case build_dict rest of Inl e \<Rightarrow> Inl e | Inr d \<Rightarrow> Inr ((k, v) # d)))"

definition repr :: "string \<Rightarrow> string" where
  "repr s = [CHR 0x27] @ s @ [CHR 0x27]"

definition int_truediv_1024 :: "int \<Rightarrow> exn + rat" where
  "int_truediv_1024 n =
     (let m = round_half_even_53 \<bar>n\<bar>
      in if m \<ge> double_limit
         then Inl (Exn OverflowError ''integer division result too large for a float'')
         else Inr (of_int (sgn n * m) / 1024))"

text \<open>
  \<^verbatim>\<open>int(field) * page_size / 1024\<close>: the product is an exact integer, the division is
  the true division above.
\<close>

definition pages_kb :: "host \<Rightarrow> string \<Rightarrow> exn + pyval" where
  "pages_kb h field =
     (case py_int field of
        None \<Rightarrow> Inl (Exn ValueError (''invalid literal for int() with base 10: '' @ repr field))
      | Some v \<Rightarrow>
          (case int_truediv_1024 (v * sc_page_size h) of
             Inl e \<Rightarrow> Inl e
           | Inr kb \<Rightarrow> Inr (Float kb)))"

definition read_memory :: "host \<Rightarrow> procfs \<Rightarrow> info \<Rightarrow> step_result" where
  "read_memory h p info =
     (case statm p of
        None \<Rightarrow> (info, None)
      | Some (Inl e) \<Rightarrow> (info, Some e)
      | Some (Inr text) \<Rightarrow>
          (let statm = split_ws (strip text)
           in if length statm \<ge> 7 then
                (case build_dict
                        [(''total_program_size'', pages_kb h (statm ! 0)),
                         (''resident_set_size'', pages_kb h (statm ! 1)),
                         (''shared_pages'', pages_kb h (statm ! 2)),
                         (''text'', pages_kb h (statm ! 3)),
                         (''data_stack'', pages_kb h (statm ! 5))] of
                   Inl e \<Rightarrow> (info, Some e)
                 | Inr memory \<Rightarrow> (dict_set ''memory'' (Dict memory) info, None))
              else (info, None)))"

text \<open>\<^verbatim>\<open>float(field) / os.sysconf("SC_CLK_TCK")\<close>\<close>

definition ticks_seconds :: "host \<Rightarrow> string \<Rightarrow> exn + rat" where
  "ticks_seconds h field =
     (case float_of h field of
        None \<Rightarrow> Inl (Exn ValueError (''could not convert string to float: '' @ repr field))
      | Some x \<Rightarrow>
          if sc_clk_tck h = 0 then Inl (Exn ZeroDivisionError ''float division by zero'')
          else Inr (x / of_int (sc_clk_tck h)))"

definition read_uptime :: "host \<Rightarrow> string \<Rightarrow> info \<Rightarrow> step_result" where
  "read_uptime h start_field info =
     (case proc_uptime h of
        Inl e \<Rightarrow> (info, Some e)
      | Inr text \<Rightarrow>
          (case split_ws text of
             [] \<Rightarrow> (info, Some (Exn IndexError ''list index out of range''))
           | u # us \<Rightarrow>
               (case float_of h u of
                  None \<Rightarrow>
                    (info, Some (Exn ValueError (''could not convert string to float: '' @ repr u)))
                | Some uptime \<Rightarrow>
                    (case ticks_seconds h start_field of
                       Inl e \<Rightarrow> (info, Some e)
                     | Inr start_seconds_since_boot \<Rightarrow>
                         (dict_set ''uptime'' (Float (uptime - start_seconds_since_boot)) info,
                          None)))))"

definition read_cpu :: "host \<Rightarrow> procfs \<Rightarrow> info \<Rightarrow> step_result" where
  "read_cpu h p info =
     (case stat p of
        None \<Rightarrow> (info, None)
      | Some (Inl e) \<Rightarrow> (info, Some e)
      | Some (Inr text) \<Rightarrow>
          (let stat_parts = split_ws (strip text)
           in if length stat_parts \<ge> 44 then
                (case build_dict
                        [(''user_time'', map_sum id Float (ticks_seconds h (stat_parts ! 13))),
                         (''system_time'', map_sum id Float (ticks_seconds h (stat_parts ! 14))),
                         (''start_time'', map_sum id Float (ticks_seconds h (stat_parts ! 21)))] of
                   Inl e \<Rightarrow> (info, Some e)
                 | Inr cpu \<Rightarrow> read_uptime h (stat_parts ! 21) (dict_set ''cpu'' (Dict cpu) info))
              else (info, None)))"

text \<open>
  The descriptor step has its own handlers: a failing \<^verbatim>\<open>os.readlink\<close> skips that
  descriptor, and a \<^verbatim>\<open>PermissionError\<close> from \<^verbatim>\<open>os.listdir\<close> is recorded as the count.
  Any other exception of \<^verbatim>\<open>os.listdir\<close> leaves the step.
\<close>

fun fd_details_of :: "(string \<times> (exn + string)) list \<Rightarrow> (string \<times> string) list" where
  "fd_details_of [] = []"
| "fd_details_of ((name, Inr target) # rest) = (name, target) # fd_details_of rest"
| "fd_details_of ((name, Inl e) # rest) = fd_details_of rest"

definition read_fds :: "procfs \<Rightarrow> info \<Rightarrow> step_result" where
  "read_fds p info =
     (case fd p of
        None \<Rightarrow> (info, None)
      | Some (Inl e) \<Rightarrow>
          if exn_class_of e = PermissionError
          then (dict_set ''fd_count'' (Str ''(Permission denied)'') info, None)
          else (info, Some e)
      | Some (Inr fd_list) \<Rightarrow>
          (dict_set ''fd_details'' (Pairs (fd_details_of (take 10 fd_list)))
             (dict_set ''fd_count'' (IntV (int (length fd_list))) info),
           None))"

definition read_io :: "procfs \<Rightarrow> info \<Rightarrow> step_result" where
  "read_io p info =
     (case io p of
        None \<Rightarrow> (info, None)
      | Some (Inl e) \<Rightarrow> (dict_set ''io'' (Str ''(Unable to read I/O statistics)'') info, None)
      | Some (Inr text) \<Rightarrow>
          (dict_set ''io'' (Dict (store_fields (colon_fields text) [])) info, None))"

text \<open>The body of the \<^verbatim>\<open>try\<close>, cut where the later theorems need a prefix of it.\<close>

definition steps_before_memory :: "procfs \<Rightarrow> step_result" where
  "steps_before_memory p = then_step (read_status p []) (read_cmdline p)"

definition steps_before_fds :: "host \<Rightarrow> procfs \<Rightarrow> step_result" where
  "steps_before_fds h p =
     then_step (then_step (steps_before_memory p) (read_memory h p)) (read_cpu h p)"

definition collect_steps :: "host \<Rightarrow> procfs \<Rightarrow> step_result" where
  "collect_steps h p = then_step (then_step (steps_before_fds h p) (read_fds p)) (read_io p)"

definition get_proc_info :: "host \<Rightarrow> string \<Rightarrow> info" where
  "get_proc_info h pid =
     (if platform_system h \<noteq> ''Linux''
      then [(''error'', Str ''This function is only available on Linux'')]
      else
        (case map_of (proc_dirs h) pid of
           None \<Rightarrow> [(''error'', Str (''Process '' @ pid @ '' no longer exists''))]
         | Some p \<Rightarrow>
             (case collect_steps h p of
                (info, None) \<Rightarrow> info
              | (info, Some e) \<Rightarrow>
                  dict_set ''error''
                    (Str (''Error reading process information: '' @ str_exn e)) info)))"

section \<open>Key codes\<close>

text \<open>
  The codes \<^verbatim>\<open>stdscr.getch()\<close> returns: the curses constants, and \<^verbatim>\<open>ord\<close> of the letters
  the screens test for.
\<close>

definition KEY_DOWN :: int where "KEY_DOWN = 258"
definition KEY_UP :: int where "KEY_UP = 259"
definition KEY_NPAGE :: int where "KEY_NPAGE = 338"
definition KEY_PPAGE :: int where "KEY_PPAGE = 339"
definition KEY_ENTER :: int where "KEY_ENTER = 343"
definition ord_j :: int where "ord_j = 106"
definition ord_k :: int where "ord_k = 107"
definition ord_q :: int where "ord_q = 113"
definition ord_space :: int where "ord_space = 32"

section \<open>Main menu\<close>

text \<open>
  \<^verbatim>\<open>show_main_menu\<close>: one pass of its loop draws the menu, reads a key and acts on it.
  \<open>main_menu_key\<close> is the \<^verbatim>\<open>if\<close>/\<^verbatim>\<open>elif\<close> chain after \<^verbatim>\<open>getch\<close>, in the source's order
  and with the source's constants.  Confirming "Processes" runs the selector and the
  detail screen, which read their own keys and leave \<open>selected_idx\<close> as it is.
\<close>

definition menu_items :: "string list" where
  "menu_items = [''Processes'', ''Exit'']"

datatype menu_step = Continue nat | Return string

definition main_menu_key :: "nat \<Rightarrow> int \<Rightarrow> menu_step" where
  "main_menu_key selected_idx key =
     (if (key = KEY_UP \<or> key = ord_k) \<and> selected_idx > 0 then Continue (selected_idx - 1)
      else if (key = KEY_DOWN \<or> key = ord_j) \<and> selected_idx < length menu_items - 1
        then Continue (selected_idx + 1)
      else if key = KEY_ENTER \<or> key = 10 \<or> key = 13 then
        (if selected_idx = 0 then Continue selected_idx
         else if selected_idx = 2 then Return ''exit''
         else Continue selected_idx)
      else if key = ord_q \<or> key = 27 then Return ''exit''
      else Continue selected_idx)"

text \<open>
  What one pass of the loop meets: a key for the menu, or a \<^verbatim>\<open>curses.error\<close> while
  drawing, which the loop catches before it goes round again.  When the events run out
  the loop is still waiting in \<^verbatim>\<open>getch\<close> and has returned nothing: \<open>None\<close>.
\<close>

datatype menu_event = Key int | CursesError

fun main_menu_loop :: "nat \<Rightarrow> menu_event list \<Rightarrow> string option" where
  "main_menu_loop selected_idx [] = None"
| "main_menu_loop selected_idx (CursesError # evs) = main_menu_loop selected_idx evs"
| "main_menu_loop selected_idx (Key key # evs) =
     (case main_menu_key selected_idx key of
        Continue i \<Rightarrow> main_menu_loop i evs
      | Return r \<Rightarrow> Some r)"

definition show_main_menu :: "menu_event list \<Rightarrow> string option" where
  "show_main_menu evs = main_menu_loop 0 evs"

section \<open>Advanced info screen\<close>

text \<open>
  \<^verbatim>\<open>show_advanced_info_tui\<close>: the five sections, the selection, the one scroll offset and
  the collapse flags.  \<open>max_lines\<close> holds the number of lines of each section, taken
  once from \<open>get_section_content\<close> when the screen is entered.
\<close>

definition sections :: "(string \<times> string) list" where
  "sections =
     [(''Memory Maps'', ''maps''), (''Open Files/Sockets'', ''fd''),
      (''Current Working Directory'', ''cwd''), (''Executable Path'', ''exe''),
      (''Resource Limits'', ''limits'')]"

record adv_state =
  selected_idx :: nat
  scroll_pos :: int
  collapsed :: "bool list"

definition adv_init :: adv_state where
  "adv_init = \<lparr> selected_idx = 0, scroll_pos = 0, collapsed = replicate (length sections) False \<rparr>"

definition section_content :: "procfs \<Rightarrow> (string \<times> string list) list" where
  "section_content p = map (\<lambda>sec. (snd sec, get_section_content p (snd sec))) sections"

definition max_lines :: "procfs \<Rightarrow> (string \<times> int) list" where
  "max_lines p = map (\<lambda>sc. (fst sc, int (length (snd sc)))) (section_content p)"

text \<open>
  The key handling of the main loop; \<open>None\<close> is the \<^verbatim>\<open>break\<close>.  The selection stays
  within the five sections, so \<open>collapsed ! selected_idx\<close> and the look-up in
  \<open>max_lines\<close> are the source's in-range reads.
\<close>

definition adv_key :: "(string \<times> int) list \<Rightarrow> adv_state \<Rightarrow> int \<Rightarrow> adv_state option" where
  "adv_key ml st key =
     (if key = ord_q \<or> key = 27 then None
      else if key = KEY_UP \<or> key = ord_k then
        (if selected_idx st > 0
         then Some (st\<lparr>selected_idx := selected_idx st - 1, scroll_pos := 0\<rparr>)
         else Some st)
      else if key = KEY_DOWN \<or> key = ord_j then
        (if selected_idx st < length sections - 1
         then Some (st\<lparr>selected_idx := selected_idx st + 1, scroll_pos := 0\<rparr>)
         else Some st)
      else if key = KEY_ENTER \<or> key = 10 \<or> key = 13 \<or> key = ord_space then
        Some (st\<lparr>collapsed := (collapsed st)[selected_idx st := \<not> collapsed st ! selected_idx st],
                 scroll_pos := 0\<rparr>)
      else if key = KEY_NPAGE then
        (if collapsed st ! selected_idx st then Some st
         else
           (let section_id = snd (sections ! selected_idx st);
                content_length = the (map_of ml section_id)
            in Some (st\<lparr>scroll_pos := min (scroll_pos st + 5) (content_length - 1)\<rparr>)))
      else if key = KEY_PPAGE then
        (if collapsed st ! selected_idx st then Some st
         else Some (st\<lparr>scroll_pos := max 0 (scroll_pos st - 5)\<rparr>))
      else Some st)"

text \<open>The state the screen is in after the keys, up to the first key that leaves it.\<close>

fun adv_keys :: "(string \<times> int) list \<Rightarrow> adv_state \<Rightarrow> int list \<Rightarrow> adv_state" where
  "adv_keys ml st [] = st"
| "adv_keys ml st (key # keys) =
     (case adv_key ml st key of None \<Rightarrow> st | Some st' \<Rightarrow> adv_keys ml st' keys)"

text \<open>
  The part of \<^verbatim>\<open>draw\<close> that reads the selected section's lines: \<open>visible_lines\<close> is
  \<^verbatim>\<open>min(len(content) - content_scroll, h - y - 2)\<close>, and the loop reads
  \<^verbatim>\<open>content[line_idx]\<close> for \<open>line_idx\<close> from \<open>content_scroll\<close> on, stopping at the end of
  the content or of the screen.  A Python list read with a negative index counts from
  the end and raises \<^verbatim>\<open>IndexError\<close> when that is out of range as well; \<^verbatim>\<open>draw\<close> catches
  \<^verbatim>\<open>curses.error\<close> only.
\<close>

definition py_getitem :: "'a list \<Rightarrow> int \<Rightarrow> exn + 'a" where
  "py_getitem xs i =
     (if i < - int (length xs) \<or> int (length xs) \<le> i
      then Inl (Exn IndexError ''list index out of range'')
      else if i < 0 then Inr (xs ! nat (int (length xs) + i))
      else Inr (xs ! nat i))"

fun draw_lines :: "string list \<Rightarrow> int list \<Rightarrow> int \<Rightarrow> int \<Rightarrow> exn + string list" where
  "draw_lines content [] y h = Inr []"
| "draw_lines content (line_idx # idxs) y h =
     (if line_idx \<ge> int (length content) \<or> y \<ge> h - 2 then Inr []
      else
        (case py_getitem content line_idx of
           Inl e \<Rightarrow> Inl e
         | Inr line \<Rightarrow>
             (case draw_lines content idxs (y + 1) h of
                Inl e \<Rightarrow> Inl e
              | Inr drawn \<Rightarrow> Inr (line # drawn))))"

definition draw_section_content :: "string list \<Rightarrow> int \<Rightarrow> int \<Rightarrow> int \<Rightarrow> exn + string list" where
  "draw_section_content content content_scroll y h =
     (let visible_lines = min (int (length content) - content_scroll) (h - y - 2)
      in if visible_lines \<le> 0 then Inr []
         else draw_lines content
                (map (\<lambda>k. content_scroll + int k) [0 ..< nat visible_lines]) y h)"

section \<open>Live output monitor\<close>

text \<open>
  \<^verbatim>\<open>monitor_io_streams\<close>, as far as the tracer subprocess is concerned.  The checks before
  the \<^verbatim>\<open>try\<close> return without starting a tracer.  \<^verbatim>\<open>Popen\<close> starts it or raises.  One pass
  of the \<^verbatim>\<open>while True\<close> loop finds the target gone and breaks, or completes, or raises;
  what a pass prints is left out.  \<^verbatim>\<open>KeyboardInterrupt\<close> and \<^verbatim>\<open>SubprocessError\<close> are
  handled, every other exception leaves the function, and the \<^verbatim>\<open>finally\<close> block runs
  in each case.
\<close>

datatype mon_exn = KeyboardInterrupt | SubprocessError string | OtherError string

datatype pass = TargetGone | PassDone | Raised mon_exn

datatype loop_end = Detached | Stopped | Failed string | Propagated mon_exn

fun streaming :: "pass list \<Rightarrow> loop_end option" where
  "streaming [] = None"
| "streaming (TargetGone # ps) = Some Detached"
| "streaming (PassDone # ps) = streaming ps"
| "streaming (Raised KeyboardInterrupt # ps) = Some Stopped"
| "streaming (Raised (SubprocessError m) # ps) = Some (Failed m)"
| "streaming (Raised (OtherError m) # ps) = Some (Propagated (OtherError m))"

text \<open>
  How the tracer handle answers the three calls of the \<^verbatim>\<open>finally\<close> block:
  \<^verbatim>\<open>process.terminate()\<close> may raise; \<^verbatim>\<open>process.wait(timeout=2)\<close> returns when the tracer
  has exited within the two seconds and raises otherwise; \<^verbatim>\<open>process.kill()\<close> may raise,
  and when it does not, the tracer is killed.
\<close>

record tracer =
  terminate_raises :: bool
  exits_in_grace :: bool
  kill_raises :: bool

datatype tracer_call = Terminate | Wait nat | Kill

record cleanup_result =
  calls :: "tracer_call list"
  tracer_running :: bool

definition kill_tracer :: "tracer \<Rightarrow> tracer_call list \<Rightarrow> cleanup_result" where
  "kill_tracer t made = \<lparr> calls = made @ [Kill], tracer_running = kill_raises t \<rparr>"

definition cleanup :: "tracer \<Rightarrow> cleanup_result" where
  "cleanup t =
     (if terminate_raises t then kill_tracer t [Terminate]
      else if exits_in_grace t then \<lparr> calls = [Terminate, Wait 2], tracer_running = False \<rparr>
      else kill_tracer t [Terminate, Wait 2])"

record monitor_env =
  is_linux :: bool
  strace_installed :: bool
  target_exists :: bool
  popen_raises :: "mon_exn option"
  passes :: "pass list"
  tracer_handle :: tracer

datatype session =
  NotStarted
| LaunchFailed mon_exn
| Ended loop_end cleanup_result

text \<open>\<open>None\<close>: the passes given do not end the loop, the session is still streaming.\<close>

definition monitor_io_streams :: "monitor_env \<Rightarrow> session option" where
  "monitor_io_streams env =
     (if \<not> is_linux env then Some NotStarted
      else if \<not> strace_installed env then Some NotStarted
      else if \<not> target_exists env then Some NotStarted
      else
        (case popen_raises env of
           Some e \<Rightarrow> Some (LaunchFailed e)
         | None \<Rightarrow>
             (case streaming (passes env) of
                None \<Rightarrow> None
              | Some how \<Rightarrow> Some (Ended how (cleanup (tracer_handle env))))))"

section \<open>Sample hosts, processes and sessions\<close>

text \<open>
  A process with every collector source in place: a CPU record of 52 fields, twelve open
  descriptors, one of which cannot be resolved, and I/O counters that may not be read.
\<close>

definition sample_proc :: procfs where
  "sample_proc =
     \<lparr> status = Some (Inr ''Name: prog\<newline>Pid: 42\<newline>''),
       cmdline = Some (Inr (''prog'' @ [CHR 0x00] @ ''--flag'' @ [CHR 0x00])),
       statm = Some (Inr ''100 50 20 10 0 30 0\<newline>''),
       stat = Some (Inr (''42 (prog) S 1 42 42 0 -1 4194304 100 0 0 0 7 3 0 0 20 0 1 0 5000 '' @
                         ''1000000 50 18446744073709551615 1 1 0 0 0 0 0 0 0 0 0 0 17 0 0 0 '' @
                         ''0 0 0 0 0 0 0 0 0 0 0\<newline>'')),
       fd = Some (Inr [(''0'', Inr ''/dev/pts/0''), (''1'', Inr ''/dev/pts/0''),
                       (''2'', Inl (Exn PermissionError ''[Errno 13] Permission denied'')),
                       (''3'', Inr ''socket:[1]''), (''4'', Inr ''socket:[2]''),
                       (''5'', Inr ''pipe:[3]''), (''6'', Inr ''pipe:[4]''),
                       (''7'', Inr ''/tmp/a''), (''8'', Inr ''/tmp/b''), (''9'', Inr ''/tmp/c''),
                       (''10'', Inr ''/tmp/d''), (''11'', Inr ''/tmp/e'')]),
       io = Some (Inl (Exn PermissionError ''[Errno 13] Permission denied'')),
       maps = None, limits = None,
       cwd = Inr ''/home/user'', exe = Inr ''/usr/bin/prog'' \<rparr>"

definition sample_host :: host where
  "sample_host =
     \<lparr> platform_system = ''Linux'', proc_dirs = [(''42'', sample_proc)],
       proc_uptime = Inr ''1000 2000'', sc_page_size = 4096, sc_clk_tck = 100,
       float_of = (\<lambda>s. map_option rat_of_int (py_int s)) \<rparr>"

text \<open>
  The same process with a command line that is not valid UTF-8: reading it in text mode
  raises (\<^verbatim>\<open>UnicodeDecodeError\<close> is a \<^verbatim>\<open>ValueError\<close>).
\<close>

definition undecodable_proc :: procfs where
  "undecodable_proc =
     sample_proc\<lparr>cmdline := Some (Inl (Exn ValueError ''invalid start byte''))\<rparr>"

definition undecodable_host :: host where
  "undecodable_host = sample_host\<lparr>proc_dirs := [(''42'', undecodable_proc)]\<rparr>"



text \<open>
  A kernel thread seen by the superuser: its \<open>maps\<close> file exists and has no lines, its
  descriptor directory exists and has no entries.
\<close>

definition kernel_thread_proc :: procfs where
  "kernel_thread_proc = absent_proc\<lparr>maps := Some ([], None), fd := Some (Inr [])\<rparr>"

text \<open>
  A monitor session that is interrupted by the operator in its third pass, with a
  tracer that does not exit within the two seconds.
\<close>

definition interrupted_session :: monitor_env where
  "interrupted_session =
     \<lparr> is_linux = True, strace_installed = True, target_exists = True, popen_raises = None,
       passes = [PassDone, PassDone, Raised KeyboardInterrupt],
       tracer_handle = \<lparr> terminate_raises = False, exits_in_grace = False, kill_raises = False \<rparr> \<rparr>"

text \<open>
  The same session with a tracer handle whose \<^verbatim>\<open>kill\<close> raises as well.
\<close>

definition stuck_session :: monitor_env where
  "stuck_session =
     interrupted_session
       \<lparr>tracer_handle :=
          \<lparr> terminate_raises = False, exits_in_grace = False, kill_raises = True \<rparr>\<rparr>"

section \<open>Properties of the search\<close>

lemma startswith_append: "startswith s t \<longleftrightarrow> (\<exists>q. s = t @ q)"
  by (induction s t rule: startswith.induct) auto

lemma str_in_substring: "str_in t s \<longleftrightarrow> (\<exists>p q. s = p @ t @ q)"
proof (induction s)
  case Nil
  then show ?case by auto
next
  case (Cons c s)
  show ?case
  proof
    assume "str_in t (c # s)"
    then consider "startswith (c # s) t" | "str_in t s" by auto
    then show "\<exists>p q. c # s = p @ t @ q"
    proof cases
      case 1
      then obtain q where "c # s = t @ q" by (auto simp: startswith_append)
      then have "c # s = [] @ t @ q" by simp
      then show ?thesis by blast
    next
      case 2
      with Cons obtain p q where "s = p @ t @ q" by blast
      then have "c # s = (c # p) @ t @ q" by simp
      then show ?thesis by blast
    qed
  next
    assume "\<exists>p q. c # s = p @ t @ q"
    then obtain p q where pq: "c # s = p @ t @ q" by blast
    show "str_in t (c # s)"
    proof (cases p)
      case Nil
      with pq have "startswith (c # s) t" by (auto simp: startswith_append)
      then show ?thesis by simp
    next
      case (Cons d p')
      with pq have "s = p' @ t @ q" by simp
      with Cons.IH have "str_in t s" by blast
      then show ?thesis by simp
    qed
  qed
qed

lemma str_in_empty: "str_in [] s"
  by (cases s) auto

text \<open>
  C7.  For every process list \<open>P\<close> and term \<open>t\<close>: searching the result of a search again
  with the same term changes nothing; the result is \<open>P\<close> restricted, in order, to the
  matching entries (a new list, \<open>P\<close> itself is only read); and every entry of the result
  is an entry of \<open>P\<close> whose lower-cased pid or lower-cased command contains the
  lower-cased term as a contiguous substring.
\<close>

theorem search_processes_idempotent_subset:
  "search_processes (search_processes P t) t = search_processes P t \<and>
   search_processes P t =
     filter (\<lambda>proc. (\<exists>p q. lower (fst proc) = p @ lower t @ q) \<or>
                     (\<exists>p q. lower (snd proc) = p @ lower t @ q)) P \<and>
   (\<forall>proc \<in> set (search_processes P t).
      proc \<in> set P \<and>
      ((\<exists>p q. lower (fst proc) = p @ lower t @ q) \<or>
       (\<exists>p q. lower (snd proc) = p @ lower t @ q)))"
  by (simp add: search_processes_def Let_def str_in_substring)

theorem search_processes_idempotent_subset_witness:
  "search_processes [(''12'', ''Bash''), (''7'', ''vim'')] ''bA'' = [(''12'', ''Bash'')] \<and>
   (''12'', ''Bash'') \<in> set [(''12'', ''Bash''), (''7'', ''vim'')] \<and>
   ((\<exists>p q. lower ''12'' = p @ lower ''bA'' @ q) \<or>
    (\<exists>p q. lower ''Bash'' = p @ lower ''bA'' @ q))"
proof -
  have ev: "search_processes [(''12'', ''Bash''), (''7'', ''vim'')] ''bA'' = [(''12'', ''Bash'')]"
    by code_simp
  from search_processes_idempotent_subset
    [of "[(''12'', ''Bash''), (''7'', ''vim'')]" "''bA''"]
  have "\<forall>proc \<in> set (search_processes [(''12'', ''Bash''), (''7'', ''vim'')] ''bA'').
          proc \<in> set [(''12'', ''Bash''), (''7'', ''vim'')] \<and>
          ((\<exists>p q. lower (fst proc) = p @ lower ''bA'' @ q) \<or>
           (\<exists>p q. lower (snd proc) = p @ lower ''bA'' @ q))"
    by blast
  with ev show ?thesis by simp
qed

text \<open>
  C10.  With the empty term every process matches: the search returns a list equal to
  its input.
\<close>

theorem search_processes_empty_term: "search_processes P [] = P"
  by (simp add: search_processes_def Let_def lower_def str_in_empty)


section \<open>Properties of the collector\<close>

lemma map_of_dict_set: "map_of (dict_set k v d) = (map_of d)(k \<mapsto> v)"
  by (induction d) (auto simp: fun_eq_iff)

lemma dict_get_dict_set:
  "dict_get (dict_set k v d) k' = (if k' = k then Some v else dict_get d k')"
  by (simp add: dict_get_def map_of_dict_set)

lemma then_step_raised: "snd r = Some e \<Longrightarrow> then_step r f = r"
  by (simp add: then_step_def)

lemma then_step_done: "snd r = None \<Longrightarrow> then_step r f = f (fst r)"
  by (simp add: then_step_def)

lemma then_step_preserves:
  "(\<And>i. dict_get (fst (f i)) k = dict_get i k) \<Longrightarrow>
   dict_get (fst (then_step r f)) k = dict_get (fst r) k"
  by (cases "snd r") (simp_all add: then_step_def)




lemma read_io_other:
  "k \<noteq> ''io'' \<Longrightarrow> dict_get (fst (read_io p i)) k = dict_get i k"
  by (auto simp: read_io_def dict_get_dict_set split: sum.splits option.splits)

lemma read_io_never_raises: "snd (read_io p i) = None"
  by (auto simp: read_io_def split: sum.splits option.splits)

lemma read_fds_raises_iff:
  "snd (read_fds p i) = Some e \<longleftrightarrow> fd p = Some (Inl e) \<and> exn_class_of e \<noteq> PermissionError"
  by (auto simp: read_fds_def split: sum.splits option.splits)

lemma get_proc_info_key:
  "platform_system h = ''Linux'' \<Longrightarrow> map_of (proc_dirs h) pid = Some p \<Longrightarrow> k \<noteq> ''error'' \<Longrightarrow>
   dict_get (get_proc_info h pid) k = dict_get (fst (collect_steps h p)) k"
  by (auto simp: get_proc_info_def dict_get_dict_set split: prod.splits option.splits)

lemma get_proc_info_raised:
  "platform_system h = ''Linux'' \<Longrightarrow> map_of (proc_dirs h) pid = Some p \<Longrightarrow>
   collect_steps h p = (i, Some e) \<Longrightarrow>
   get_proc_info h pid =
     dict_set ''error'' (Str (''Error reading process information: '' @ str_exn e)) i"
  by (simp add: get_proc_info_def)

lemma get_proc_info_done:
  "platform_system h = ''Linux'' \<Longrightarrow> map_of (proc_dirs h) pid = Some p \<Longrightarrow>
   snd (collect_steps h p) = None \<Longrightarrow> get_proc_info h pid = fst (collect_steps h p)"
  by (cases "collect_steps h p") (simp add: get_proc_info_def)






text \<open>A field of 310 digits: the quotient is beyond the doubles and the division raises.\<close>

lemma int_truediv_1024_overflow:
  "int_truediv_1024 (10 ^ 309 * 4096) =
     Inl (Exn OverflowError ''integer division result too large for a float'')"
  by code_simp



lemma length_fd_details_of: "length (fd_details_of ents) \<le> length ents"
  by (induction ents rule: fd_details_of.induct) auto

lemma set_fd_details_of: "d \<in> set (fd_details_of ents) \<Longrightarrow> (fst d, Inr (snd d)) \<in> set ents"
  by (induction ents rule: fd_details_of.induct) auto

lemma after_fds_key:
  "k \<noteq> ''error'' \<Longrightarrow> k \<noteq> ''io'' \<Longrightarrow>
   platform_system h = ''Linux'' \<Longrightarrow> map_of (proc_dirs h) pid = Some p \<Longrightarrow>
   snd (steps_before_fds h p) = None \<Longrightarrow>
   dict_get (get_proc_info h pid) k = dict_get (fst (read_fds p (fst (steps_before_fds h p)))) k"
  by (simp add: get_proc_info_key collect_steps_def then_step_preserves read_io_other then_step_done)

section \<open>Collector: the not-found result\<close>

text \<open>
  C6.  When \<^verbatim>\<open>/proc/<pid>\<close> does not exist, the snapshot holds the single field \<open>error\<close>
  and nothing else, whatever the other sources of the host would give; on Linux its
  value is the not-found message for that pid.  (On another platform the platform check,
  which comes first, gives the single \<open>error\<close> field its own message.)
\<close>

theorem get_proc_info_not_found:
  "map_of (proc_dirs h) pid = None \<Longrightarrow>
   map fst (get_proc_info h pid) = [''error''] \<and>
   (platform_system h = ''Linux'' \<longrightarrow>
      get_proc_info h pid = [(''error'', Str (''Process '' @ pid @ '' no longer exists''))])"
  by (simp add: get_proc_info_def)

theorem get_proc_info_not_found_witness:
  "map_of (proc_dirs sample_host) ''4242'' = None \<and>
   platform_system sample_host = ''Linux'' \<and>
   get_proc_info sample_host ''4242'' = [(''error'', Str ''Process 4242 no longer exists'')]"
proof -
  have a: "map_of (proc_dirs sample_host) ''4242'' = None"
    by (simp add: sample_host_def)
  have b: "platform_system sample_host = ''Linux''"
    by (simp add: sample_host_def)
  from get_proc_info_not_found [OF a] a b show ?thesis by simp
qed

section \<open>Collector: failures\<close>

text \<open>
  C2, as the claim states it, fails: on \<open>undecodable_host\<close> the command line of pid 42
  cannot be read, the memory record, the descriptor directory and the I/O counters are
  all in place, and the snapshot holds none of their fields.
\<close>

theorem collect_steps_not_independent:
  "statm undecodable_proc = Some (Inr ''100 50 20 10 0 30 0\<newline>'') \<and>
   io undecodable_proc = Some (Inl (Exn PermissionError ''[Errno 13] Permission denied'')) \<and>
   get_proc_info undecodable_host ''42'' =
     [(''Name'', Str ''prog''), (''Pid'', Str ''42''),
      (''error'', Str ''Error reading process information: invalid start byte'')] \<and>
   dict_get (get_proc_info undecodable_host ''42'') ''memory'' = None \<and>
   dict_get (get_proc_info undecodable_host ''42'') ''fd_count'' = None \<and>
   dict_get (get_proc_info undecodable_host ''42'') ''io'' = None"
proof -
  have r: "get_proc_info undecodable_host ''42'' =
     [(''Name'', Str ''prog''), (''Pid'', Str ''42''),
      (''error'', Str ''Error reading process information: invalid start byte'')]"
    by code_simp
  show ?thesis
    unfolding r by (simp add: dict_get_def undecodable_proc_def sample_proc_def)
qed

text \<open>
  C2, as the code has it.  On Linux, for a pid whose directory exists, the collector
  never raises: an exception raised by the steps is turned into the \<open>error\<close> field, and
  without one the snapshot is what the steps built.  The steps are not independent: when
  the status step, the command-line step, the memory step, the CPU step or the listing of
  the descriptors raises, collection ends there, and the snapshot is the fields collected
  up to that point plus \<open>error\<close>; no later step contributes.  Two failures are absorbed
  where they happen: reading the I/O counters never raises, and the descriptor step
  raises only when the listing fails with something other than a permission error.
\<close>

theorem collect_failure_ends_collection:
  assumes "platform_system h = ''Linux''" and "map_of (proc_dirs h) pid = Some p"
  shows "(\<forall>e. snd (collect_steps h p) = Some e \<longrightarrow>
            dict_get (get_proc_info h pid) ''error'' =
              Some (Str (''Error reading process information: '' @ str_exn e))) \<and>
         (snd (collect_steps h p) = None \<longrightarrow> get_proc_info h pid = fst (collect_steps h p)) \<and>
         (\<forall>r \<in> {read_status p [], steps_before_memory p,
                  then_step (steps_before_memory p) (read_memory h p), steps_before_fds h p,
                  then_step (steps_before_fds h p) (read_fds p)}.
            \<forall>e. snd r = Some e \<longrightarrow>
              get_proc_info h pid =
                dict_set ''error'' (Str (''Error reading process information: '' @ str_exn e))
                  (fst r)) \<and>
         (\<forall>i. snd (read_io p i) = None) \<and>
         (\<forall>i e. snd (read_fds p i) = Some e \<longleftrightarrow>
                  fd p = Some (Inl e) \<and> exn_class_of e \<noteq> PermissionError)"
proof -
  have stop: "collect_steps h p = r"
    if "r \<in> {read_status p [], steps_before_memory p,
              then_step (steps_before_memory p) (read_memory h p), steps_before_fds h p,
              then_step (steps_before_fds h p) (read_fds p)}" and "snd r = Some e" for r e
    using that
    by (auto simp: collect_steps_def steps_before_fds_def steps_before_memory_def then_step_raised)
  have surfaced: "get_proc_info h pid =
             dict_set ''error'' (Str (''Error reading process information: '' @ str_exn e)) (fst r)"
    if "collect_steps h p = r" and "snd r = Some e" for r e
    using that assms get_proc_info_raised [of h pid p "fst r" e] by (cases r) simp
  show ?thesis
  proof (intro conjI allI impI ballI)
    fix e assume "snd (collect_steps h p) = Some e"
    with surfaced [OF refl this]
    show "dict_get (get_proc_info h pid) ''error'' =
            Some (Str (''Error reading process information: '' @ str_exn e))"
      by (simp add: dict_get_dict_set)
  next
    assume "snd (collect_steps h p) = None"
    with assms show "get_proc_info h pid = fst (collect_steps h p)"
      by (simp add: get_proc_info_done)
  next
    fix r e
    assume "r \<in> {read_status p [], steps_before_memory p,
                 then_step (steps_before_memory p) (read_memory h p), steps_before_fds h p,
                 then_step (steps_before_fds h p) (read_fds p)}" and "snd r = Some e"
    then show "get_proc_info h pid =
                 dict_set ''error'' (Str (''Error reading process information: '' @ str_exn e))
                   (fst r)"
      using surfaced stop by blast
  next
    fix i show "snd (read_io p i) = None" by (rule read_io_never_raises)
  next
    fix i e show "snd (read_fds p i) = Some e \<longleftrightarrow>
                  fd p = Some (Inl e) \<and> exn_class_of e \<noteq> PermissionError"
      by (rule read_fds_raises_iff)
  qed
qed

theorem collect_failure_ends_collection_witness:
  "platform_system undecodable_host = ''Linux'' \<and>
   map_of (proc_dirs undecodable_host) ''42'' = Some undecodable_proc \<and>
   steps_before_memory undecodable_proc =
     ([(''Name'', Str ''prog''), (''Pid'', Str ''42'')],
      Some (Exn ValueError ''invalid start byte'')) \<and>
   get_proc_info undecodable_host ''42'' =
     dict_set ''error'' (Str (''Error reading process information: '' @ ''invalid start byte''))
       [(''Name'', Str ''prog''), (''Pid'', Str ''42'')]"
proof -
  have a: "platform_system undecodable_host = ''Linux''"
    by (simp add: undecodable_host_def sample_host_def)
  have b: "map_of (proc_dirs undecodable_host) ''42'' = Some undecodable_proc"
    by (simp add: undecodable_host_def)
  have s: "steps_before_memory undecodable_proc =
             ([(''Name'', Str ''prog''), (''Pid'', Str ''42'')],
              Some (Exn ValueError ''invalid start byte''))"
    by code_simp
  from collect_failure_ends_collection [OF a b]
  have "\<forall>e. snd (steps_before_memory undecodable_proc) = Some e \<longrightarrow>
          get_proc_info undecodable_host ''42'' =
            dict_set ''error'' (Str (''Error reading process information: '' @ str_exn e))
              (fst (steps_before_memory undecodable_proc))"
    by blast
  then have "get_proc_info undecodable_host ''42'' =
     dict_set ''error'' (Str (''Error reading process information: '' @ ''invalid start byte''))
       [(''Name'', Str ''prog''), (''Pid'', Str ''42'')]"
    unfolding s by simp
  with a b s show ?thesis by simp
qed

section \<open>Collector: memory\<close>






section \<open>Collector: descriptors\<close>

text \<open>
  C9, as the claim states it, fails: pid 42 of \<open>undecodable_host\<close> has a descriptor
  directory that can be listed, with twelve entries, and the snapshot holds neither
  \<open>fd_count\<close> nor \<open>fd_details\<close>, because the command-line step before it raised.
\<close>

theorem fd_step_skipped_after_failure:
  "fd undecodable_proc =
     Some (Inr [(''0'', Inr ''/dev/pts/0''), (''1'', Inr ''/dev/pts/0''),
                (''2'', Inl (Exn PermissionError ''[Errno 13] Permission denied'')),
                (''3'', Inr ''socket:[1]''), (''4'', Inr ''socket:[2]''),
                (''5'', Inr ''pipe:[3]''), (''6'', Inr ''pipe:[4]''),
                (''7'', Inr ''/tmp/a''), (''8'', Inr ''/tmp/b''), (''9'', Inr ''/tmp/c''),
                (''10'', Inr ''/tmp/d''), (''11'', Inr ''/tmp/e'')]) \<and>
   dict_get (get_proc_info undecodable_host ''42'') ''fd_count'' = None \<and>
   dict_get (get_proc_info undecodable_host ''42'') ''fd_details'' = None"
proof -
  have r: "get_proc_info undecodable_host ''42'' =
     [(''Name'', Str ''prog''), (''Pid'', Str ''42''),
      (''error'', Str ''Error reading process information: invalid start byte'')]"
    by code_simp
  show ?thesis
    unfolding r by (simp add: dict_get_def undecodable_proc_def sample_proc_def)
qed

text \<open>
  C9, as the code has it.  On Linux, when the collector reaches the descriptor step of an
  existing pid (no step before it raised):
  if the descriptor directory can be listed, \<open>fd_count\<close> is the number of entries
  listed, and \<open>fd_details\<close> holds at most ten pairs, each a descriptor among the first
  ten listed together with the target it resolves to (the descriptors among the first ten
  that cannot be resolved are left out); if listing is refused for lack of permission,
  \<open>fd_count\<close> is the marker text, not a number.
\<close>

theorem fd_count_exact_details_capped:
  assumes "platform_system h = ''Linux''" and "map_of (proc_dirs h) pid = Some p"
      and "snd (steps_before_fds h p) = None"
  shows "(\<forall>fd_list. fd p = Some (Inr fd_list) \<longrightarrow>
            dict_get (get_proc_info h pid) ''fd_count'' = Some (IntV (int (length fd_list))) \<and>
            dict_get (get_proc_info h pid) ''fd_details'' =
              Some (Pairs (fd_details_of (take 10 fd_list))) \<and>
            length (fd_details_of (take 10 fd_list)) \<le> 10 \<and>
            (\<forall>d \<in> set (fd_details_of (take 10 fd_list)).
               (fst d, Inr (snd d)) \<in> set (take 10 fd_list))) \<and>
         (\<forall>e. fd p = Some (Inl e) \<and> exn_class_of e = PermissionError \<longrightarrow>
            dict_get (get_proc_info h pid) ''fd_count'' = Some (Str ''(Permission denied)''))"
proof (intro conjI allI impI)
  fix fd_list
  assume l: "fd p = Some (Inr fd_list)"
  show "dict_get (get_proc_info h pid) ''fd_count'' = Some (IntV (int (length fd_list)))"
    using assms l by (simp add: after_fds_key read_fds_def dict_get_dict_set)
  show "dict_get (get_proc_info h pid) ''fd_details'' =
          Some (Pairs (fd_details_of (take 10 fd_list)))"
    using assms l by (simp add: after_fds_key read_fds_def dict_get_dict_set)
  have "length (fd_details_of (take 10 fd_list)) \<le> length (take 10 fd_list)"
    by (rule length_fd_details_of)
  then show "length (fd_details_of (take 10 fd_list)) \<le> 10" by simp
  show "\<forall>d \<in> set (fd_details_of (take 10 fd_list)).
          (fst d, Inr (snd d)) \<in> set (take 10 fd_list)"
    using set_fd_details_of by blast
next
  fix e
  assume "fd p = Some (Inl e) \<and> exn_class_of e = PermissionError"
  then show "dict_get (get_proc_info h pid) ''fd_count'' = Some (Str ''(Permission denied)'')"
    using assms by (simp add: after_fds_key read_fds_def dict_get_dict_set)
qed

theorem fd_count_exact_details_capped_witness:
  "platform_system sample_host = ''Linux'' \<and>
   map_of (proc_dirs sample_host) ''42'' = Some sample_proc \<and>
   snd (steps_before_fds sample_host sample_proc) = None \<and>
   dict_get (get_proc_info sample_host ''42'') ''fd_count'' = Some (IntV 12) \<and>
   dict_get (get_proc_info sample_host ''42'') ''fd_details'' =
     Some (Pairs [(''0'', ''/dev/pts/0''), (''1'', ''/dev/pts/0''), (''3'', ''socket:[1]''),
                  (''4'', ''socket:[2]''), (''5'', ''pipe:[3]''), (''6'', ''pipe:[4]''),
                  (''7'', ''/tmp/a''), (''8'', ''/tmp/b''), (''9'', ''/tmp/c'')])"
proof -
  have a: "platform_system sample_host = ''Linux''"
    and b: "map_of (proc_dirs sample_host) ''42'' = Some sample_proc"
    by (simp_all add: sample_host_def)
  have c: "snd (steps_before_fds sample_host sample_proc) = None"
    by code_simp
  from fd_count_exact_details_capped [OF a b c]
  have "\<forall>fd_list. fd sample_proc = Some (Inr fd_list) \<longrightarrow>
            dict_get (get_proc_info sample_host ''42'') ''fd_count'' =
              Some (IntV (int (length fd_list))) \<and>
            dict_get (get_proc_info sample_host ''42'') ''fd_details'' =
              Some (Pairs (fd_details_of (take 10 fd_list)))"
    by blast
  then show ?thesis using a b c by (simp add: sample_proc_def)
qed

section \<open>Section content resolver\<close>




section \<open>Main menu\<close>

lemma main_menu_selection_bounded:
  "main_menu_key i key = Continue j \<Longrightarrow> i < length menu_items \<Longrightarrow> j < length menu_items"
  by (auto simp: main_menu_key_def menu_items_def split: if_splits)

text \<open>
  With the selection on the second item, no run of Enter keys and drawing errors makes
  the loop return.
\<close>

lemma main_menu_enter_never_returns:
  "\<forall>ev \<in> set evs. ev \<in> {Key KEY_ENTER, Key 10, Key 13, CursesError} \<Longrightarrow>
   main_menu_loop 1 evs = None"
  by (induction evs)
     (auto simp: main_menu_key_def menu_items_def KEY_ENTER_def KEY_UP_def KEY_DOWN_def
        ord_k_def ord_j_def ord_q_def)

text \<open>
  C1.  "Exit" is the menu item at index 1, and the branch that returns on Enter tests
  for index 2.  With the selection on "Exit", each of the three Enter codes leaves the
  menu as it is: after Down and Enter the loop has not returned, and it returns only
  when \<open>q\<close> (or Escape) follows.
\<close>

theorem main_menu_enter_on_exit_keeps_running:
  "menu_items ! 1 = ''Exit'' \<and>
   main_menu_key 1 KEY_ENTER = Continue 1 \<and>
   main_menu_key 1 10 = Continue 1 \<and>
   main_menu_key 1 13 = Continue 1 \<and>
   show_main_menu [Key KEY_DOWN, Key 10] = None \<and>
   show_main_menu [Key KEY_DOWN, Key 10, Key ord_q] = Some ''exit''"
  by (simp add: menu_items_def main_menu_key_def show_main_menu_def KEY_ENTER_def KEY_UP_def
      KEY_DOWN_def ord_k_def ord_j_def ord_q_def)

section \<open>Advanced info screen\<close>

text \<open>
  Where every section has at least one line, the key handling keeps the selection within
  the sections and the scroll offset between 0 and the last line of the selected section.
\<close>

lemma adv_key_scroll_in_range:
  assumes "\<forall>sec \<in> set sections. \<exists>n. map_of ml (snd sec) = Some n \<and> 1 \<le> n"
      and "selected_idx st < length sections"
      and "0 \<le> scroll_pos st"
      and "scroll_pos st \<le> the (map_of ml (snd (sections ! selected_idx st))) - 1"
      and "adv_key ml st key = Some st'"
  shows "selected_idx st' < length sections \<and> 0 \<le> scroll_pos st' \<and>
         scroll_pos st' \<le> the (map_of ml (snd (sections ! selected_idx st'))) - 1"
proof -
  have pos: "1 \<le> the (map_of ml (snd (sections ! i)))" if "i < length sections" for i
  proof -
    from that have "sections ! i \<in> set sections" by simp
    with assms(1) obtain n where "map_of ml (snd (sections ! i)) = Some n" "1 \<le> n" by blast
    then show ?thesis by simp
  qed
  have len: "length sections = 5" by (simp add: sections_def)
  from assms(2) have up: "selected_idx st - 1 < length sections" by simp
  have down: "selected_idx st + 1 < length sections" if "selected_idx st < length sections - 1"
    using that by simp
  note here = pos [OF assms(2)] and above = pos [OF up] and below = pos [OF down]
  show ?thesis
    using assms(2-5) here above below len
    by (auto simp: adv_key_def Let_def split: if_splits)
qed

text \<open>
  A key that changes the selection or a collapse flag sets the scroll offset to 0.
\<close>

lemma adv_key_resets_scroll:
  "adv_key ml st key = Some st' \<Longrightarrow>
   selected_idx st' \<noteq> selected_idx st \<or> collapsed st' \<noteq> collapsed st \<Longrightarrow>
   scroll_pos st' = 0"
  by (auto simp: adv_key_def Let_def split: if_splits)

text \<open>
  C4.  The \<open>maps\<close> section of a kernel thread has no lines.  On the screen as it opens
  (first section selected and expanded, offset 0), Page Down sets the offset to
  \<open>min (0 + 5) (0 - 1)\<close>, which is \<open>-1\<close>; the next \<^verbatim>\<open>draw\<close> then reads \<^verbatim>\<open>content[-1]\<close> of the
  empty content and raises \<^verbatim>\<open>IndexError\<close>, which \<^verbatim>\<open>draw\<close> does not catch.
\<close>

theorem advanced_scroll_negative_on_empty_section:
  "get_section_content kernel_thread_proc ''maps'' = [] \<and>
   scroll_pos (adv_keys (max_lines kernel_thread_proc) adv_init [KEY_NPAGE]) = - 1 \<and>
   draw_section_content (get_section_content kernel_thread_proc ''maps'') (- 1) 3 24 =
     Inl (Exn IndexError ''list index out of range'')"
proof -
  have c: "get_section_content kernel_thread_proc ''maps'' = []"
    by (simp add: kernel_thread_proc_def get_section_content_def read_lines_section_def)
  have ml: "map_of (max_lines kernel_thread_proc) ''maps'' = Some 0"
    by (simp add: max_lines_def section_content_def sections_def c)
  have s: "scroll_pos (adv_keys (max_lines kernel_thread_proc) adv_init [KEY_NPAGE]) = - 1"
    by (simp add: adv_key_def adv_init_def sections_def ml KEY_NPAGE_def KEY_UP_def KEY_DOWN_def
        KEY_ENTER_def ord_q_def ord_k_def ord_j_def ord_space_def)
  have d: "draw_section_content [] (- 1) 3 24 = Inl (Exn IndexError ''list index out of range'')"
    by (simp add: draw_section_content_def py_getitem_def)
  from c s d show ?thesis by simp
qed

section \<open>Live output monitor\<close>

lemma streaming_returns_iff: "streaming ps \<noteq> None \<longleftrightarrow> (\<exists>e \<in> set ps. e \<noteq> PassDone)"
  by (induction ps rule: streaming.induct) auto

text \<open>
  C3, as the claim states it, fails: in \<open>stuck_session\<close> the loop is entered and ends by
  the operator's interrupt, the tracer does not exit within the two seconds, and the
  \<^verbatim>\<open>kill\<close> call raises; the exception is swallowed and the function ends with the tracer
  running.
\<close>

theorem monitor_kill_failure_leaves_tracer:
  "is_linux stuck_session \<and> strace_installed stuck_session \<and> target_exists stuck_session \<and>
   popen_raises stuck_session = None \<and>
   streaming (passes stuck_session) = Some Stopped \<and>
   monitor_io_streams stuck_session =
     Some (Ended Stopped \<lparr> calls = [Terminate, Wait 2, Kill], tracer_running = True \<rparr>)"
  by (simp add: stuck_session_def interrupted_session_def monitor_io_streams_def cleanup_def
      kill_tracer_def)

text \<open>
  C3, as the code has it.  Whenever the session has entered the streaming loop (the three checks passed and
  the tracer was started) and the loop ends, in whichever way (target gone, operator
  interrupt, subprocess error, or an exception that leaves the function), the function
  ends after the clean-up has run on the tracer: \<^verbatim>\<open>terminate\<close> is called first, then
  \<^verbatim>\<open>wait\<close> with the two-second limit, and \<^verbatim>\<open>kill\<close> is called exactly when \<^verbatim>\<open>terminate\<close>
  raised or the tracer did not exit within the limit.  The tracer is not left running,
  unless the \<^verbatim>\<open>kill\<close> call itself raised.
\<close>

theorem monitor_cleanup_on_every_exit:
  assumes "is_linux env" and "strace_installed env" and "target_exists env"
      and "popen_raises env = None"
      and "streaming (passes env) = Some how"
  shows "\<exists>c. monitor_io_streams env = Some (Ended how c) \<and>
             (calls c = [Terminate, Wait 2] \<or> calls c = [Terminate, Wait 2, Kill] \<or>
              calls c = [Terminate, Kill]) \<and>
             (Kill \<in> set (calls c) \<longleftrightarrow>
                terminate_raises (tracer_handle env) \<or> \<not> exits_in_grace (tracer_handle env)) \<and>
             (tracer_running c \<longrightarrow> kill_raises (tracer_handle env) \<and> Kill \<in> set (calls c))"
  using assms by (simp add: monitor_io_streams_def cleanup_def kill_tracer_def)

theorem monitor_cleanup_on_every_exit_witness:
  "is_linux interrupted_session \<and> strace_installed interrupted_session \<and>
   target_exists interrupted_session \<and> popen_raises interrupted_session = None \<and>
   streaming (passes interrupted_session) = Some Stopped \<and>
   monitor_io_streams interrupted_session =
     Some (Ended Stopped \<lparr> calls = [Terminate, Wait 2, Kill], tracer_running = False \<rparr>)"
proof -
  have a: "is_linux interrupted_session" "strace_installed interrupted_session"
    "target_exists interrupted_session" "popen_raises interrupted_session = None"
    "streaming (passes interrupted_session) = Some Stopped"
    by (simp_all add: interrupted_session_def)
  have r: "monitor_io_streams interrupted_session =
     Some (Ended Stopped \<lparr> calls = [Terminate, Wait 2, Kill], tracer_running = False \<rparr>)"
    using a by (simp add: monitor_io_streams_def cleanup_def kill_tracer_def interrupted_session_def)
  from monitor_cleanup_on_every_exit [OF a] a r show ?thesis by simp
qed

end
